theory Spec2Isabelle
  imports Main "HOL-Library.Word" "HOL-Library.List_Lexorder"
begin

section \<open>JavaScript strings and values\<close>

text \<open>
  A JavaScript string is a sequence of UTF-16 code units. The order that
  \<^verbatim>\<open>Array.prototype.sort()\<close> uses without a comparator is the lexicographic order of
  these sequences, which is the order of lists over the (unsigned) order of 16-bit words.
\<close>

type_synonym code_unit = "16 word"
type_synonym jsstring = "code_unit list"

definition ascii :: "string \<Rightarrow> jsstring" where
  "ascii s = map (\<lambda>c. of_nat (of_char c)) s"

text \<open>
  \<^verbatim>\<open>String.prototype.trim\<close> removes the code units of the ECMAScript productions
  WhiteSpace and LineTerminator from both ends.
\<close>

definition isWhiteSpace :: "code_unit \<Rightarrow> bool" where
  "isWhiteSpace u \<longleftrightarrow>
     u \<in> set [0x0009, 0x000A, 0x000B, 0x000C, 0x000D, 0x0020, 0x00A0, 0x1680,
              0x2000, 0x2001, 0x2002, 0x2003, 0x2004, 0x2005, 0x2006, 0x2007,
              0x2008, 0x2009, 0x200A, 0x2028, 0x2029, 0x202F, 0x205F, 0x3000, 0xFEFF]"

definition trim :: "jsstring \<Rightarrow> jsstring" where
  "trim s = rev (dropWhile isWhiteSpace (rev (dropWhile isWhiteSpace s)))"

text \<open>
  The values an untyped property can hold. \<open>JSNumber\<close> stands for the integral numbers
  only and \<open>JSObject\<close> for every object; the code below reads of such a value nothing
  but its truthiness and its \<^verbatim>\<open>typeof\<close>.
\<close>

datatype jsvalue =
    JSUndefined
  | JSNull
  | JSBoolean bool
  | JSNumber int
  | JSString jsstring
  | JSObject

fun truthy :: "jsvalue \<Rightarrow> bool" where
  "truthy JSUndefined = False"
| "truthy JSNull = False"
| "truthy (JSBoolean b) = b"
| "truthy (JSNumber n) = (n \<noteq> 0)"
| "truthy (JSString s) = (s \<noteq> [])"
| "truthy JSObject = True"

fun typeof :: "jsvalue \<Rightarrow> jsstring" where
  "typeof JSUndefined = ascii ''undefined''"
| "typeof JSNull = ascii ''object''"
| "typeof (JSBoolean b) = ascii ''boolean''"
| "typeof (JSNumber n) = ascii ''number''"
| "typeof (JSString s) = ascii ''string''"
| "typeof JSObject = ascii ''object''"

section \<open>Effects: thrown errors, dispatched events, console output\<close>

text \<open>
  A thrown error, with its message.
\<close>

datatype js_error = Thrown jsstring

text \<open>
  The two union types of the class: \<^verbatim>\<open>'html' | 'text'\<close> and
  \<^verbatim>\<open>'top' | 'right' | 'bottom'\<close>.
\<close>

datatype mode = Html | Text

datatype position = Top | Right | Bottom

datatype detail =
    ChordsDetail "jsstring list"
  | ModeDetail mode
  | InstrumentDetail jsstring

datatype custom_event =
  CustomEvent (event_type: jsstring) (detail: detail) (bubbles: bool) (composed: bool)

datatype effect =
    DispatchEvent custom_event
  | ConsoleError jsstring js_error

text \<open>
  A computation ends with a value (\<open>Inr\<close>) or with a thrown error (\<open>Inl\<close>), and has
  produced a sequence of effects by then, in order.
\<close>

type_synonym 'a js = "(js_error + 'a) \<times> effect list"

definition js_return :: "'a \<Rightarrow> 'a js" where
  "js_return v = (Inr v, [])"

definition js_lift :: "js_error + 'a \<Rightarrow> 'a js" where
  "js_lift r = (r, [])"

definition js_bind :: "'a js \<Rightarrow> ('a \<Rightarrow> 'b js) \<Rightarrow> 'b js" where
  "js_bind m f =
     (case m of
        (Inl e, out) \<Rightarrow> (Inl e, out)
      | (Inr v, out) \<Rightarrow> (case f v of (r, out') \<Rightarrow> (r, out @ out')))"

definition try_catch :: "'a js \<Rightarrow> (js_error \<Rightarrow> 'a js) \<Rightarrow> 'a js" where
  "try_catch body handler =
     (case body of
        (Inl e, out) \<Rightarrow> (case handler e of (r, out') \<Rightarrow> (r, out @ out'))
      | (Inr v, out) \<Rightarrow> (Inr v, out))"

definition dispatchEvent :: "custom_event \<Rightarrow> unit js" where
  "dispatchEvent ev = (Inr (), [DispatchEvent ev])"

definition console_error :: "jsstring \<Rightarrow> js_error \<Rightarrow> unit js" where
  "console_error msg e = (Inr (), [ConsoleError msg e])"

section \<open>The parsed song\<close>

text \<open>
  The song that the external parser returns: lines, each with its items. Of an item the
  component reads the property \<^verbatim>\<open>chords\<close> only, at the type \<^verbatim>\<open>any\<close>.
\<close>

datatype item = Item (chords: jsvalue)

datatype line = Line (items: "item list")

datatype song = Song (lines: "line list")

section \<open>The component\<close>

text \<open>
  The fields of the class \<^verbatim>\<open>ChordProRenderer\<close>. The private fields \<^verbatim>\<open>_mode\<close>,
  \<^verbatim>\<open>_showChordsInternal\<close> and \<^verbatim>\<open>_selectedInstrument\<close> carry the prefix \<open>priv\<close> here.
  The parser and the two formatters are objects of an external library: each is the
  function that its method \<^verbatim>\<open>parse\<close> or \<^verbatim>\<open>format\<close> computes, which may throw.
\<close>

record component =
  content :: jsstring
  instrument :: jsstring
  showChords :: bool
  chordPosition :: position
  format :: mode
  priv_mode :: mode
  priv_showChordsInternal :: bool
  priv_selectedInstrument :: jsstring
  parser :: "jsstring \<Rightarrow> js_error + song"
  htmlFormatter :: "song \<Rightarrow> js_error + jsstring"
  textFormatter :: "song \<Rightarrow> js_error + jsstring"

definition ChordProRenderer ::
  "(jsstring \<Rightarrow> js_error + song) \<Rightarrow> (song \<Rightarrow> js_error + jsstring) \<Rightarrow>
   (song \<Rightarrow> js_error + jsstring) \<Rightarrow> component" where
  "ChordProRenderer p hf tf =
     \<lparr> content = [],
       instrument = ascii ''Standard Ukulele'',
       showChords = False,
       chordPosition = Top,
       format = Html,
       priv_mode = Html,
       priv_showChordsInternal = False,
       priv_selectedInstrument = ascii ''Standard Ukulele'',
       parser = p,
       htmlFormatter = hf,
       textFormatter = tf \<rparr>"

definition availableInstruments :: "jsstring list" where
  "availableInstruments =
     [ascii ''Standard Ukulele'',
      ascii ''Baritone Ukulele'',
      ascii ''5ths tuned Ukulele'',
      ascii ''Standard Guitar'',
      ascii ''Drop-D Guitar'',
      ascii ''Standard Mandolin'']"

definition connectedCallback :: "component \<Rightarrow> component" where
  "connectedCallback c =
     c\<lparr> priv_mode := format c,
        priv_showChordsInternal := showChords c,
        priv_selectedInstrument := instrument c \<rparr>"

text \<open>
  \<^verbatim>\<open>changedProperties\<close> is a \<^verbatim>\<open>Map\<close> from property names to their previous values.
\<close>

definition has :: "(jsstring \<rightharpoonup> jsvalue) \<Rightarrow> jsstring \<Rightarrow> bool" where
  "has m k \<longleftrightarrow> m k \<noteq> None"

definition updated :: "(jsstring \<rightharpoonup> jsvalue) \<Rightarrow> component \<Rightarrow> component" where
  "updated changedProperties c =
     (let c1 = (if has changedProperties (ascii ''format'')
                then c\<lparr> priv_mode := format c \<rparr> else c);
          c2 = (if has changedProperties (ascii ''showChords'')
                then c1\<lparr> priv_showChordsInternal := showChords c1 \<rparr> else c1);
          c3 = (if has changedProperties (ascii ''instrument'')
                then c2\<lparr> priv_selectedInstrument := instrument c2 \<rparr> else c2)
      in c3)"

definition formattedSheet :: "component \<Rightarrow> jsstring js" where
  "formattedSheet c =
     (if content c = [] then js_return []
      else try_catch
        (js_bind (js_lift (parser c (content c))) (\<lambda>song.
           let formatter = (if priv_mode c = Html then htmlFormatter c else textFormatter c)
           in js_lift (formatter song)))
        (\<lambda>_. js_return
           (if priv_mode c = Html
            then ascii ''<div>Invalid ChordPro format</div>''
            else ascii ''Invalid ChordPro format'')))"

text \<open>
  A \<^verbatim>\<open>Set\<close> of strings keeps its members in insertion order, each once.
\<close>

definition set_add :: "jsstring list \<Rightarrow> jsstring \<Rightarrow> jsstring list" where
  "set_add s x = (if x \<in> set s then s else s @ [x])"

text \<open>
  The two callbacks of the nested \<^verbatim>\<open>forEach\<close>, with the set they fill as an argument.
\<close>

definition item_callback :: "jsstring list \<Rightarrow> item \<Rightarrow> jsstring list" where
  "item_callback chords_set it =
     (if truthy (chords it) \<and> typeof (chords it) = ascii ''string'' then
        (case chords it of
           JSString s \<Rightarrow>
             (let chordString = trim s
              in if chordString \<noteq> [] then set_add chords_set chordString else chords_set)
         | _ \<Rightarrow> chords_set)
      else chords_set)"

definition line_callback :: "jsstring list \<Rightarrow> line \<Rightarrow> jsstring list" where
  "line_callback chords_set ln = foldl item_callback chords_set (items ln)"

definition collect_chords :: "song \<Rightarrow> jsstring list" where
  "collect_chords sg = foldl line_callback [] (lines sg)"

definition chords_changed :: "jsstring list \<Rightarrow> custom_event" where
  "chords_changed chordArray =
     CustomEvent (ascii ''chords-changed'') (ChordsDetail chordArray) True True"

definition extractedChords :: "component \<Rightarrow> jsstring list js" where
  "extractedChords c =
     try_catch
       (js_bind (js_lift (parser c (content c))) (\<lambda>song.
          let chordArray = sort (collect_chords song)
          in js_bind (dispatchEvent (chords_changed chordArray)) (\<lambda>_.
             js_return chordArray)))
       (\<lambda>error.
          js_bind (console_error (ascii ''Chord extraction error:'') error) (\<lambda>_.
          js_return []))"

definition mode_changed :: "mode \<Rightarrow> custom_event" where
  "mode_changed m = CustomEvent (ascii ''mode-changed'') (ModeDetail m) True True"

definition handleModeChange :: "mode \<Rightarrow> component \<Rightarrow> component \<times> effect list" where
  "handleModeChange m c =
     (let c' = c\<lparr> priv_mode := m \<rparr>
      in (c', [DispatchEvent (mode_changed m)]))"

definition instrument_changed :: "jsstring \<Rightarrow> custom_event" where
  "instrument_changed i =
     CustomEvent (ascii ''instrument-changed'') (InstrumentDetail i) True True"

text \<open>
  The argument is the \<^verbatim>\<open>value\<close> of the \<^verbatim>\<open>select\<close> element that the event targets.
\<close>

definition handleInstrumentChange :: "jsstring \<Rightarrow> component \<Rightarrow> component \<times> effect list" where
  "handleInstrumentChange select_value c =
     (let c' = c\<lparr> priv_selectedInstrument := select_value \<rparr>
      in (c', [DispatchEvent (instrument_changed (priv_selectedInstrument c'))]))"

definition toggleChords :: "component \<Rightarrow> component" where
  "toggleChords c = c\<lparr> priv_showChordsInternal := \<not> priv_showChordsInternal c \<rparr>"

section \<open>Rendering\<close>

text \<open>
  What \<^verbatim>\<open>renderChordList\<close> returns: the empty template, or the chart section with its
  position class and the two properties handed to the \<^verbatim>\<open>chord-list\<close> element. The
  property \<^verbatim>\<open>chords\<close> is the JSON text of the array kept here.
\<close>

datatype chord_list_template =
    EmptyTemplate
  | ChordChartsSection (section_position: position) (chords_prop: "jsstring list")
      (instrument_prop: jsstring)

definition renderChordList :: "component \<Rightarrow> chord_list_template js" where
  "renderChordList c =
     (if \<not> priv_showChordsInternal c then js_return EmptyTemplate
      else js_bind (extractedChords c) (\<lambda>chords1.
        if length chords1 = 0 then js_return EmptyTemplate
        else js_bind (extractedChords c) (\<lambda>chords2.
          js_return (ChordChartsSection (chordPosition c) chords2 (priv_selectedInstrument c)))))"

datatype viewer_body =
    InnerHTML jsstring
  | Pre jsstring
  | NoContent

text \<open>
  The template of \<^verbatim>\<open>render\<close>, part by part. A slot is \<open>None\<close> where the template
  inserts the empty string; \<open>right_panel\<close> is the content of the \<^verbatim>\<open>right-chord-panel\<close>
  element when that element is there.
\<close>

record view =
  data_chord_position :: position
  html_btn_active :: bool
  text_btn_active :: bool
  instrument_select :: "(jsstring \<times> jsstring list) option"
  toggle_aria_label :: jsstring
  toggle_text :: jsstring
  top_slot :: "chord_list_template option"
  has_right_chords :: bool
  data_mode :: mode
  viewer :: viewer_body
  right_panel :: "chord_list_template option"
  bottom_slot :: "chord_list_template option"

text \<open>
  The test \<^verbatim>\<open>chordPosition === 'right' && _showChordsInternal && extractedChords.length > 0\<close>,
  which \<^verbatim>\<open>render\<close> evaluates for \<^verbatim>\<open>hasRightChords\<close> and once more inside the
  template; the getter is read only when the first two conjuncts hold.
\<close>

definition right_condition :: "component \<Rightarrow> bool js" where
  "right_condition c =
     (if chordPosition c = Right \<and> priv_showChordsInternal c
      then js_bind (extractedChords c) (\<lambda>chs. js_return (length chs > 0))
      else js_return False)"

text \<open>
  A conditional part of the template: \<^verbatim>\<open>renderChordList()\<close> under a condition, the
  empty string otherwise.
\<close>

definition render_slot :: "bool \<Rightarrow> component \<Rightarrow> chord_list_template option js" where
  "render_slot cond c =
     (if cond then js_bind (renderChordList c) (\<lambda>t. js_return (Some t))
      else js_return None)"

text \<open>
  The content of the viewer. The getter \<^verbatim>\<open>formattedSheet\<close> is read for the test,
  and again for the content when the test succeeds.
\<close>

definition render_viewer :: "component \<Rightarrow> viewer_body js" where
  "render_viewer c =
     js_bind (formattedSheet c) (\<lambda>sheet.
       if sheet \<noteq> [] then
         js_bind (formattedSheet c) (\<lambda>sheet'.
           js_return (if priv_mode c = Html then InnerHTML sheet' else Pre sheet'))
       else js_return NoContent)"

definition render :: "component \<Rightarrow> view js" where
  "render c =
     js_bind (right_condition c) (\<lambda>hasRightChords.
     js_bind (render_slot (chordPosition c = Top) c) (\<lambda>top.
     js_bind (render_viewer c) (\<lambda>body.
     js_bind (right_condition c) (\<lambda>right_cond.
     js_bind (render_slot right_cond c) (\<lambda>right.
     js_bind (render_slot (chordPosition c = Bottom) c) (\<lambda>bottom.
     js_return
       \<lparr> data_chord_position = chordPosition c,
         html_btn_active = (priv_mode c = Html),
         text_btn_active = (priv_mode c = Text),
         instrument_select =
           (if priv_showChordsInternal c
            then Some (priv_selectedInstrument c, availableInstruments) else None),
         toggle_aria_label =
           (if priv_showChordsInternal c then ascii ''Hide'' else ascii ''Show'')
             @ ascii '' chord charts'',
         toggle_text =
           (if priv_showChordsInternal c then ascii ''Hide Chords'' else ascii ''Show Chords''),
         top_slot = top,
         has_right_chords = hasRightChords,
         data_mode = priv_mode c,
         viewer = body,
         right_panel = right,
         bottom_slot = bottom \<rparr>))))))"

section \<open>The specification's reading of chord extraction\<close>

text \<open>
  The chord annotations of a song that are strings, in the order of the lines and of the
  items within each line.
\<close>

definition chord_annotations :: "song \<Rightarrow> jsstring list" where
  "chord_annotations sg =
     concat (map (\<lambda>ln. concat (map (\<lambda>it. case chords it of JSString s \<Rightarrow> [s] | _ \<Rightarrow> [])
       (items ln))) (lines sg))"

text \<open>
  The set of the trimmed annotations that are not empty.
\<close>

definition trimmed_chord_strings :: "song \<Rightarrow> jsstring set" where
  "trimmed_chord_strings sg = set (filter (\<lambda>t. t \<noteq> []) (map trim (chord_annotations sg)))"

text \<open>
  The set of the annotations themselves, untrimmed, that are not empty once trimmed.
\<close>

definition nonblank_chord_annotations :: "song \<Rightarrow> jsstring set" where
  "nonblank_chord_annotations sg = set (filter (\<lambda>s. trim s \<noteq> []) (chord_annotations sg))"

section \<open>Observations on effects and on the rendered view\<close>

text \<open>
  The events among the effects of a computation, in the order of their dispatch.
\<close>

definition dispatched :: "effect list \<Rightarrow> custom_event list" where
  "dispatched out =
     concat (map (\<lambda>eff. case eff of DispatchEvent ev \<Rightarrow> [ev] | _ \<Rightarrow> []) out)"

text \<open>
  Two successive reads of the getter \<^verbatim>\<open>extractedChords\<close> on one component, as
  \<^verbatim>\<open>renderChordList\<close> makes them.
\<close>

definition extract_twice :: "component \<Rightarrow> (jsstring list \<times> jsstring list) js" where
  "extract_twice c =
     js_bind (extractedChords c) (\<lambda>first.
     js_bind (extractedChords c) (\<lambda>second.
     js_return (first, second)))"

text \<open>
  The three places of the layout where the chart panel can stand, and whether the panel
  stands there.
\<close>

fun slot_of :: "view \<Rightarrow> position \<Rightarrow> chord_list_template option" where
  "slot_of v Top = top_slot v"
| "slot_of v Right = right_panel v"
| "slot_of v Bottom = bottom_slot v"

definition panel_at :: "view \<Rightarrow> position \<Rightarrow> bool" where
  "panel_at v p \<longleftrightarrow>
     (case slot_of v p of Some (ChordChartsSection q chs i) \<Rightarrow> True | _ \<Rightarrow> False)"

section \<open>Example inputs\<close>

text \<open>
  Stand-ins for the external collaborators, and components built on them: a song with the
  chords G, C and G after a title tag; a song whose annotations carry blanks; a song
  without chords; a parser that rejects every text; a formatter that throws; a component
  whose three properties were reset from outside after the user chose an instrument.
\<close>

definition stub_htmlFormatter :: "song \<Rightarrow> js_error + jsstring" where
  "stub_htmlFormatter sg = Inr (ascii ''<div>sheet</div>'')"

definition stub_textFormatter :: "song \<Rightarrow> js_error + jsstring" where
  "stub_textFormatter sg = Inr (ascii ''sheet'')"

definition example_text :: jsstring where
  "example_text = ascii ''{title: T}'' @ [0x000A] @ ascii ''[G]a [C]b [G]c''"

definition example_song :: song where
  "example_song =
     Song [Line [Item JSUndefined],
           Line [Item (JSString (ascii ''G'')), Item (JSString (ascii ''C'')),
                 Item (JSString (ascii ''G''))]]"

definition example_component :: component where
  "example_component =
     (ChordProRenderer (\<lambda>_. Inr example_song) stub_htmlFormatter stub_textFormatter)
       \<lparr> content := example_text \<rparr>"

definition padded_song :: song where
  "padded_song =
     Song [Line [Item (JSString (ascii '' G '')), Item (JSString (ascii ''G'')),
                 Item (JSString (ascii ''  '')), Item JSObject]]"

definition padded_component :: component where
  "padded_component =
     (ChordProRenderer (\<lambda>_. Inr padded_song) stub_htmlFormatter stub_textFormatter)
       \<lparr> content := ascii ''[ G ]a [G]b [  ]c'' \<rparr>"

definition chordless_song :: song where
  "chordless_song = Song [Line [Item JSUndefined, Item JSObject, Item (JSNumber 7)], Line []]"

definition chordless_component :: component where
  "chordless_component =
     (ChordProRenderer (\<lambda>_. Inr chordless_song) stub_htmlFormatter stub_textFormatter)
       \<lparr> content := ascii ''{title: T}'' \<rparr>"

definition empty_song :: song where
  "empty_song = Song [Line []]"

definition empty_component :: component where
  "empty_component =
     ChordProRenderer (\<lambda>_. Inr empty_song) stub_htmlFormatter stub_textFormatter"

definition rejecting_parser :: "jsstring \<Rightarrow> js_error + song" where
  "rejecting_parser text = Inl (Thrown (ascii ''SyntaxError''))"

definition rejecting_component :: component where
  "rejecting_component =
     ChordProRenderer rejecting_parser stub_htmlFormatter stub_textFormatter"

definition malformed_component :: component where
  "malformed_component = rejecting_component \<lparr> content := ascii ''{start_of_chorus'' \<rparr>"

definition throwing_formatter :: "song \<Rightarrow> js_error + jsstring" where
  "throwing_formatter sg = Inl (Thrown (ascii ''TypeError''))"

definition unformattable_component :: component where
  "unformattable_component =
     (ChordProRenderer (\<lambda>_. Inr example_song) throwing_formatter throwing_formatter)
       \<lparr> content := example_text \<rparr>"

definition user_adjusted_component :: component where
  "user_adjusted_component =
     fst (handleInstrumentChange (ascii ''Standard Guitar'')
       (connectedCallback example_component))"

definition reconfigured_component :: component where
  "reconfigured_component =
     user_adjusted_component
       \<lparr> instrument := ascii ''Baritone Ukulele'', showChords := True, format := Text \<rparr>"

definition all_changed :: "jsstring \<rightharpoonup> jsvalue" where
  "all_changed =
     [ascii ''format'' \<mapsto> JSString (ascii ''html''),
      ascii ''showChords'' \<mapsto> JSBoolean False,
      ascii ''instrument'' \<mapsto> JSString (ascii ''Standard Ukulele'')]"

section \<open>Chord collection\<close>

lemma trim_Nil: "trim [] = []"
  by (simp add: trim_def)

lemma set_item_callback:
  "set (item_callback acc it) =
     set acc \<union> set (filter (\<lambda>t. t \<noteq> [])
       (map trim (case chords it of JSString s \<Rightarrow> [s] | _ \<Rightarrow> [])))"
  by (cases it; cases "chords it")
    (auto simp: item_callback_def set_add_def Let_def trim_Nil)

lemma distinct_item_callback: "distinct acc \<Longrightarrow> distinct (item_callback acc it)"
  by (cases it; cases "chords it") (auto simp: item_callback_def set_add_def Let_def)

lemma set_foldl_item_callback:
  "set (foldl item_callback acc its) =
     set acc \<union> set (filter (\<lambda>t. t \<noteq> [])
       (map trim (concat (map (\<lambda>it. case chords it of JSString s \<Rightarrow> [s] | _ \<Rightarrow> []) its))))"
  by (induction its arbitrary: acc) (auto simp: set_item_callback)

lemma distinct_foldl_item_callback:
  "distinct acc \<Longrightarrow> distinct (foldl item_callback acc its)"
  by (induction its arbitrary: acc) (auto simp: distinct_item_callback)

lemma set_foldl_line_callback:
  "set (foldl line_callback acc lns) = set acc \<union> trimmed_chord_strings (Song lns)"
  by (induction lns arbitrary: acc)
    (auto simp: line_callback_def set_foldl_item_callback trimmed_chord_strings_def
      chord_annotations_def)

lemma distinct_foldl_line_callback:
  "distinct acc \<Longrightarrow> distinct (foldl line_callback acc lns)"
  by (induction lns arbitrary: acc) (auto simp: line_callback_def distinct_foldl_item_callback)

lemma set_collect_chords: "set (collect_chords sg) = trimmed_chord_strings sg"
  by (cases sg) (simp add: collect_chords_def set_foldl_line_callback)

lemma distinct_collect_chords: "distinct (collect_chords sg)"
  by (simp add: collect_chords_def distinct_foldl_line_callback)

text \<open>
  The sorting algorithm of the engine is not fixed, and need not be: a list without
  duplicates has one sorted arrangement only.
\<close>

lemma sorted_arrangement_unique:
  "distinct xs \<Longrightarrow> distinct ys \<Longrightarrow> set ys = set xs \<Longrightarrow> sorted ys \<Longrightarrow> ys = sort xs"
  by (simp add: sorted_distinct_set_unique)

section \<open>The outcomes of an extraction and of a formatting\<close>

lemma extractedChords_throw:
  "parser c (content c) = Inl e \<Longrightarrow>
   extractedChords c = (Inr [], [ConsoleError (ascii ''Chord extraction error:'') e])"
  by (simp add: extractedChords_def try_catch_def js_bind_def js_lift_def js_return_def
      console_error_def)

lemma extractedChords_ok:
  "parser c (content c) = Inr sg \<Longrightarrow>
   extractedChords c =
     (Inr (sort (collect_chords sg)),
      [DispatchEvent (chords_changed (sort (collect_chords sg)))])"
  by (simp add: extractedChords_def try_catch_def js_bind_def js_lift_def js_return_def
      dispatchEvent_def Let_def)

lemma extractedChords_returns: "\<exists>cs out. extractedChords c = (Inr cs, out)"
  by (cases "parser c (content c)") (simp_all add: extractedChords_throw extractedChords_ok)

lemma extractedChords_cong:
  "content c' = content c \<Longrightarrow> parser c' = parser c \<Longrightarrow>
   extractedChords c' = extractedChords c"
  by (simp add: extractedChords_def)

lemma extract_twice_eq:
  "extractedChords c = (Inr cs, out) \<Longrightarrow> extract_twice c = (Inr (cs, cs), out @ out)"
  by (simp add: extract_twice_def js_bind_def js_return_def)

lemma formattedSheet_empty: "content c = [] \<Longrightarrow> formattedSheet c = (Inr [], [])"
  by (simp add: formattedSheet_def js_return_def)

lemma formattedSheet_throw:
  "content c \<noteq> [] \<Longrightarrow> parser c (content c) = Inl e \<Longrightarrow>
   formattedSheet c =
     (Inr (if priv_mode c = Html then ascii ''<div>Invalid ChordPro format</div>''
           else ascii ''Invalid ChordPro format''), [])"
  by (simp add: formattedSheet_def try_catch_def js_bind_def js_lift_def js_return_def)

lemma formattedSheet_format_throw:
  "content c \<noteq> [] \<Longrightarrow> parser c (content c) = Inr sg \<Longrightarrow>
   (if priv_mode c = Html then htmlFormatter c else textFormatter c) sg = Inl e \<Longrightarrow>
   formattedSheet c =
     (Inr (if priv_mode c = Html then ascii ''<div>Invalid ChordPro format</div>''
           else ascii ''Invalid ChordPro format''), [])"
  by (simp add: formattedSheet_def try_catch_def js_bind_def js_lift_def js_return_def Let_def)

lemma formattedSheet_ok:
  "content c \<noteq> [] \<Longrightarrow> parser c (content c) = Inr sg \<Longrightarrow>
   (if priv_mode c = Html then htmlFormatter c else textFormatter c) sg = Inr s \<Longrightarrow>
   formattedSheet c = (Inr s, [])"
  by (simp add: formattedSheet_def try_catch_def js_bind_def js_lift_def js_return_def Let_def)

lemma formattedSheet_returns: "\<exists>s. formattedSheet c = (Inr s, [])"
proof (cases "content c = []")
  case True
  then show ?thesis by (simp add: formattedSheet_empty)
next
  case ne: False
  show ?thesis
  proof (cases "parser c (content c)")
    case (Inl e)
    with ne show ?thesis by (simp add: formattedSheet_throw)
  next
    case (Inr sg)
    show ?thesis
    proof (cases "(if priv_mode c = Html then htmlFormatter c else textFormatter c) sg")
      case (Inl e)
      with ne Inr show ?thesis using formattedSheet_format_throw by blast
    next
      case r: (Inr s)
      with ne Inr show ?thesis using formattedSheet_ok by blast
    qed
  qed
qed

section \<open>The value of a rendering\<close>

lemma fst_js_bind: "fst m = Inr v \<Longrightarrow> fst (js_bind m f) = fst (f v)"
  by (cases m; cases "f v") (simp add: js_bind_def)

lemma fst_js_return: "fst (js_return v) = Inr v"
  by (simp add: js_return_def)

lemma fst_renderChordList:
  assumes "fst (extractedChords c) = Inr cs"
  shows "fst (renderChordList c) =
     Inr (if priv_showChordsInternal c \<and> cs \<noteq> []
          then ChordChartsSection (chordPosition c) cs (priv_selectedInstrument c)
          else EmptyTemplate)"
  using assms by (simp add: renderChordList_def fst_js_bind fst_js_return)

lemma fst_right_condition:
  assumes "fst (extractedChords c) = Inr cs"
  shows "fst (right_condition c) =
     Inr (chordPosition c = Right \<and> priv_showChordsInternal c \<and> cs \<noteq> [])"
  using assms by (auto simp: right_condition_def fst_js_bind fst_js_return)

lemma fst_render_slot:
  assumes "fst (extractedChords c) = Inr cs"
  shows "fst (render_slot b c) =
     Inr (if b then Some (if priv_showChordsInternal c \<and> cs \<noteq> []
          then ChordChartsSection (chordPosition c) cs (priv_selectedInstrument c)
          else EmptyTemplate) else None)"
  using fst_renderChordList [OF assms]
  by (simp add: render_slot_def fst_js_bind fst_js_return)

lemma fst_render_viewer:
  assumes "fst (formattedSheet c) = Inr s"
  shows "fst (render_viewer c) =
     Inr (if s \<noteq> [] then (if priv_mode c = Html then InnerHTML s else Pre s) else NoContent)"
  using assms by (simp add: render_viewer_def fst_js_bind fst_js_return)

lemma fst_render:
  assumes x: "fst (extractedChords c) = Inr cs" and f: "fst (formattedSheet c) = Inr s"
  shows "\<exists>v. fst (render c) = Inr v
    \<and> top_slot v = (if chordPosition c = Top
         then Some (if priv_showChordsInternal c \<and> cs \<noteq> []
           then ChordChartsSection (chordPosition c) cs (priv_selectedInstrument c)
           else EmptyTemplate) else None)
    \<and> right_panel v = (if chordPosition c = Right \<and> priv_showChordsInternal c \<and> cs \<noteq> []
         then Some (ChordChartsSection (chordPosition c) cs (priv_selectedInstrument c))
         else None)
    \<and> bottom_slot v = (if chordPosition c = Bottom
         then Some (if priv_showChordsInternal c \<and> cs \<noteq> []
           then ChordChartsSection (chordPosition c) cs (priv_selectedInstrument c)
           else EmptyTemplate) else None)
    \<and> has_right_chords v = (chordPosition c = Right \<and> priv_showChordsInternal c \<and> cs \<noteq> [])
    \<and> viewer v = (if s \<noteq> [] then (if priv_mode c = Html then InnerHTML s else Pre s)
         else NoContent)
    \<and> instrument_select v = (if priv_showChordsInternal c
         then Some (priv_selectedInstrument c, availableInstruments) else None)"
  by (simp add: render_def fst_js_bind [OF fst_right_condition [OF x]]
      fst_js_bind [OF fst_render_slot [OF x]] fst_js_bind [OF fst_render_viewer [OF f]]
      fst_js_return)

lemma panel_at_render:
  assumes x: "fst (extractedChords c) = Inr cs"
  shows "\<exists>v. fst (render c) = Inr v
    \<and> (\<forall>p. panel_at v p \<longleftrightarrow> p = chordPosition c \<and> priv_showChordsInternal c \<and> cs \<noteq> [])
    \<and> (\<forall>p. panel_at v p \<longrightarrow>
          slot_of v p = Some (ChordChartsSection p cs (priv_selectedInstrument c)))"
proof -
  obtain s where "formattedSheet c = (Inr s, [])"
    using formattedSheet_returns by blast
  then have f: "fst (formattedSheet c) = Inr s" by simp
  from fst_render [OF x f] obtain v where v: "fst (render c) = Inr v"
    and t: "top_slot v = (if chordPosition c = Top
         then Some (if priv_showChordsInternal c \<and> cs \<noteq> []
           then ChordChartsSection (chordPosition c) cs (priv_selectedInstrument c)
           else EmptyTemplate) else None)"
    and r: "right_panel v = (if chordPosition c = Right \<and> priv_showChordsInternal c \<and> cs \<noteq> []
         then Some (ChordChartsSection (chordPosition c) cs (priv_selectedInstrument c))
         else None)"
    and b: "bottom_slot v = (if chordPosition c = Bottom
         then Some (if priv_showChordsInternal c \<and> cs \<noteq> []
           then ChordChartsSection (chordPosition c) cs (priv_selectedInstrument c)
           else EmptyTemplate) else None)"
    by blast
  have 1: "panel_at v p \<longleftrightarrow> p = chordPosition c \<and> priv_showChordsInternal c \<and> cs \<noteq> []" for p
    using t r b by (cases p; cases "chordPosition c") (simp_all add: panel_at_def)
  have 2: "panel_at v p \<longrightarrow>
          slot_of v p = Some (ChordChartsSection p cs (priv_selectedInstrument c))" for p
    using t r b by (cases p; cases "chordPosition c") (simp_all add: panel_at_def)
  from v 1 2 show ?thesis by blast
qed

lemma toggleChords_twice: "toggleChords (toggleChords c) = c"
  by (simp add: toggleChords_def)

section \<open>The example inputs, evaluated\<close>

lemma example_chords: "sort (collect_chords example_song) = [ascii ''C'', ascii ''G'']"
  by (simp add: example_song_def collect_chords_def line_callback_def item_callback_def
      set_add_def trim_def isWhiteSpace_def ascii_def)

lemma example_parses:
  "parser example_component (content example_component) = Inr example_song"
  by (simp add: example_component_def ChordProRenderer_def)

lemma example_extracted:
  "fst (extractedChords example_component) = Inr [ascii ''C'', ascii ''G'']"
  using example_parses example_chords by (simp add: extractedChords_ok)

lemma malformed_throws:
  "parser malformed_component (content malformed_component)
     = Inl (Thrown (ascii ''SyntaxError''))"
  by (simp add: malformed_component_def rejecting_component_def ChordProRenderer_def
      rejecting_parser_def)

lemma malformed_content: "content malformed_component \<noteq> []"
  by (simp add: malformed_component_def ascii_def)

lemma malformed_mode: "priv_mode malformed_component = Html"
  by (simp add: malformed_component_def rejecting_component_def ChordProRenderer_def)

section \<open>Claims\<close>

text \<open>
  C1 (as amended). Whenever the parser returns a song, \<open>extractedChords\<close> returns exactly
  the set of the trimmed chord annotations: every annotation that is a string, with the
  white space at its two ends removed, provided that what is left is not empty. The
  strings are collected over all items of all lines, each occurs once, the sequence is
  sorted in the lexicographic order of code units, and nothing but the trimming changes
  a chord name, so its case is the source's.
\<close>

theorem extractedChords_sorted_trimmed_set:
  assumes "parser c (content c) = Inr sg"
  shows "\<exists>cs. fst (extractedChords c) = Inr cs \<and> set cs = trimmed_chord_strings sg
           \<and> distinct cs \<and> sorted cs"
proof -
  let ?cs = "sort (collect_chords sg)"
  have "fst (extractedChords c) = Inr ?cs"
    using assms by (simp add: extractedChords_ok)
  moreover have "set ?cs = trimmed_chord_strings sg"
    by (simp add: set_collect_chords)
  moreover have "distinct ?cs"
    by (simp add: distinct_collect_chords)
  moreover have "sorted ?cs"
    by simp
  ultimately show ?thesis by blast
qed

theorem extractedChords_sorted_trimmed_set_witness:
  "parser example_component (content example_component) = Inr example_song
   \<and> fst (extractedChords example_component) = Inr [ascii ''C'', ascii ''G'']
   \<and> trimmed_chord_strings example_song = {ascii ''C'', ascii ''G''}"
proof -
  have t: "trimmed_chord_strings example_song = {ascii ''C'', ascii ''G''}"
    by (auto simp: trimmed_chord_strings_def chord_annotations_def example_song_def
        trim_def isWhiteSpace_def ascii_def)
  from extractedChords_sorted_trimmed_set [OF example_parses] example_parses
    example_extracted t
  show ?thesis by simp
qed

text \<open>
  The claim as it is written takes the annotations themselves as the members. An
  annotation with blanks around the chord name is returned without them, and falls
  together with the bare name.
\<close>

theorem extractedChords_untrimmed_counterexample:
  "parser padded_component (content padded_component) = Inr padded_song
   \<and> fst (extractedChords padded_component) = Inr [ascii ''G'']
   \<and> nonblank_chord_annotations padded_song = {ascii '' G '', ascii ''G''}
   \<and> set [ascii ''G''] \<noteq> nonblank_chord_annotations padded_song"
proof -
  have h: "parser padded_component (content padded_component) = Inr padded_song"
    by (simp add: padded_component_def ChordProRenderer_def)
  have e: "sort (collect_chords padded_song) = [ascii ''G'']"
    by (simp add: padded_song_def collect_chords_def line_callback_def item_callback_def
        set_add_def trim_def isWhiteSpace_def ascii_def)
  have t: "nonblank_chord_annotations padded_song = {ascii '' G '', ascii ''G''}"
    by (auto simp: nonblank_chord_annotations_def chord_annotations_def padded_song_def
        trim_def isWhiteSpace_def ascii_def)
  have n: "set [ascii ''G''] \<noteq> {ascii '' G '', ascii ''G''}"
    by (auto simp: ascii_def)
  from h e t n show ?thesis
    by (simp add: extractedChords_ok)
qed

text \<open>
  C2 (as amended). On every input text on which the parser throws, chord extraction
  yields the empty sequence; and when that text is not empty, \<open>formattedSheet\<close> is the
  placeholder of the active mode: \<^verbatim>\<open><div>Invalid ChordPro format</div>\<close> in the
  formatted mode, \<^verbatim>\<open>Invalid ChordPro format\<close> in the raw-text mode.
\<close>

theorem invalid_format_placeholder:
  assumes "parser c (content c) = Inl e"
  shows "fst (extractedChords c) = Inr []
    \<and> (content c \<noteq> [] \<longrightarrow>
         fst (formattedSheet c) =
           Inr (if priv_mode c = Html then ascii ''<div>Invalid ChordPro format</div>''
                else ascii ''Invalid ChordPro format''))"
  using assms by (simp add: extractedChords_throw formattedSheet_throw)

theorem invalid_format_placeholder_witness:
  "parser malformed_component (content malformed_component)
     = Inl (Thrown (ascii ''SyntaxError''))
   \<and> content malformed_component \<noteq> []
   \<and> fst (extractedChords malformed_component) = Inr []
   \<and> fst (formattedSheet malformed_component)
       = Inr (ascii ''<div>Invalid ChordPro format</div>'')"
  using invalid_format_placeholder [OF malformed_throws] malformed_throws malformed_content
    malformed_mode
  by simp

text \<open>
  The placeholder is not the text \<^verbatim>\<open>Invalid format\<close>; and for the empty text
  \<open>formattedSheet\<close> is the empty string whatever the parser would do with it, since the
  parser is not asked.
\<close>

theorem invalid_format_literal_counterexample:
  "parser (fst (handleModeChange Text malformed_component))
      (content (fst (handleModeChange Text malformed_component)))
     = Inl (Thrown (ascii ''SyntaxError''))
   \<and> fst (formattedSheet (fst (handleModeChange Text malformed_component)))
     = Inr (ascii ''Invalid ChordPro format'')
   \<and> ascii ''Invalid ChordPro format'' \<noteq> ascii ''Invalid format''
   \<and> parser rejecting_component (content rejecting_component)
     = Inl (Thrown (ascii ''SyntaxError''))
   \<and> fst (formattedSheet rejecting_component) = Inr []"
proof -
  let ?c = "fst (handleModeChange Text malformed_component)"
  have p: "parser ?c (content ?c) = Inl (Thrown (ascii ''SyntaxError''))"
    using malformed_throws by (simp add: handleModeChange_def)
  have n: "content ?c \<noteq> []"
    using malformed_content by (simp add: handleModeChange_def)
  have m: "priv_mode ?c = Text"
    by (simp add: handleModeChange_def)
  have f: "fst (formattedSheet ?c) = Inr (ascii ''Invalid ChordPro format'')"
    using formattedSheet_throw [OF n p] m by simp
  have d: "ascii ''Invalid ChordPro format'' \<noteq> ascii ''Invalid format''"
    by (simp add: ascii_def)
  have r: "parser rejecting_component (content rejecting_component)
     = Inl (Thrown (ascii ''SyntaxError''))"
    by (simp add: rejecting_component_def ChordProRenderer_def rejecting_parser_def)
  have e: "fst (formattedSheet rejecting_component) = Inr []"
    by (simp add: formattedSheet_empty rejecting_component_def ChordProRenderer_def)
  from p f d r e show ?thesis by simp
qed

text \<open>
  C3 (as amended). The selectable instrument identifiers are exactly the six strings
  Standard Ukulele, Baritone Ukulele, 5ths tuned Ukulele (with a blank, not a hyphen),
  Standard Guitar, Drop-D Guitar and Standard Mandolin; they are the options of the
  instrument selector whenever it is rendered; and a new component has Standard Ukulele
  both as its instrument property and as its selected instrument.
\<close>

theorem availableInstruments_exact:
  "set availableInstruments =
     {ascii ''Standard Ukulele'', ascii ''Baritone Ukulele'', ascii ''5ths tuned Ukulele'',
      ascii ''Standard Guitar'', ascii ''Drop-D Guitar'', ascii ''Standard Mandolin''}
   \<and> distinct availableInstruments
   \<and> length availableInstruments = 6
   \<and> instrument (ChordProRenderer p hf tf) = ascii ''Standard Ukulele''
   \<and> priv_selectedInstrument (ChordProRenderer p hf tf) = ascii ''Standard Ukulele''
   \<and> (\<exists>v. fst (render c) = Inr v
        \<and> instrument_select v =
            (if priv_showChordsInternal c
             then Some (priv_selectedInstrument c, availableInstruments) else None))"
proof -
  have a: "set availableInstruments =
     {ascii ''Standard Ukulele'', ascii ''Baritone Ukulele'', ascii ''5ths tuned Ukulele'',
      ascii ''Standard Guitar'', ascii ''Drop-D Guitar'', ascii ''Standard Mandolin''}"
    by (simp add: availableInstruments_def)
  have b: "distinct availableInstruments"
    by (simp add: availableInstruments_def ascii_def)
  have l: "length availableInstruments = 6"
    by (simp add: availableInstruments_def)
  have d: "instrument (ChordProRenderer p hf tf) = ascii ''Standard Ukulele''"
    "priv_selectedInstrument (ChordProRenderer p hf tf) = ascii ''Standard Ukulele''"
    by (simp_all add: ChordProRenderer_def)
  obtain cs out where "extractedChords c = (Inr cs, out)"
    using extractedChords_returns by blast
  then have x: "fst (extractedChords c) = Inr cs" by simp
  obtain s where "formattedSheet c = (Inr s, [])"
    using formattedSheet_returns by blast
  then have f: "fst (formattedSheet c) = Inr s" by simp
  from fst_render [OF x f]
  have r: "\<exists>v. fst (render c) = Inr v
        \<and> instrument_select v =
            (if priv_showChordsInternal c
             then Some (priv_selectedInstrument c, availableInstruments) else None)"
    by (elim exE conjE) (rule exI, rule conjI)
  from a b l d r show ?thesis by (intro conjI)
qed

text \<open>
  The identifier with a hyphen, as the claim spells it, is not among them.
\<close>

theorem hyphenated_instrument_counterexample:
  "ascii ''5ths-tuned Ukulele'' \<notin> set availableInstruments"
  by (simp add: availableInstruments_def ascii_def)

text \<open>
  C4. When \<open>updated\<close> runs after an external change of the format, show-chords or
  instrument property (the property's name is then a key of the changed properties), the
  internal mode, visibility or selected instrument equals the property's new value
  afterwards, whatever the user had chosen before. The update leaves the three
  properties as they are, and so do the user's mode change, visibility toggle and
  instrument selection: nothing is written back.
\<close>

theorem external_reconfiguration_resyncs:
  "(has changedProperties (ascii ''format'') \<longrightarrow>
      priv_mode (updated changedProperties c) = format c)
   \<and> (has changedProperties (ascii ''showChords'') \<longrightarrow>
      priv_showChordsInternal (updated changedProperties c) = showChords c)
   \<and> (has changedProperties (ascii ''instrument'') \<longrightarrow>
      priv_selectedInstrument (updated changedProperties c) = instrument c)
   \<and> format (updated changedProperties c) = format c
   \<and> showChords (updated changedProperties c) = showChords c
   \<and> instrument (updated changedProperties c) = instrument c
   \<and> format (fst (handleModeChange m c)) = format c
   \<and> showChords (toggleChords c) = showChords c
   \<and> instrument (fst (handleInstrumentChange i c)) = instrument c"
  by (simp add: updated_def Let_def handleModeChange_def toggleChords_def
      handleInstrumentChange_def)

theorem external_reconfiguration_resyncs_witness:
  "has all_changed (ascii ''format'')
   \<and> has all_changed (ascii ''showChords'')
   \<and> has all_changed (ascii ''instrument'')
   \<and> priv_selectedInstrument reconfigured_component = ascii ''Standard Guitar''
   \<and> instrument reconfigured_component = ascii ''Baritone Ukulele''
   \<and> priv_selectedInstrument (updated all_changed reconfigured_component)
       = ascii ''Baritone Ukulele''
   \<and> priv_showChordsInternal (updated all_changed reconfigured_component) = True
   \<and> priv_mode (updated all_changed reconfigured_component) = Text"
proof -
  have h: "has all_changed (ascii ''format'')" "has all_changed (ascii ''showChords'')"
    "has all_changed (ascii ''instrument'')"
    by (simp_all add: has_def all_changed_def ascii_def)
  have r: "priv_selectedInstrument reconfigured_component = ascii ''Standard Guitar''"
    "instrument reconfigured_component = ascii ''Baritone Ukulele''"
    "showChords reconfigured_component = True"
    "format reconfigured_component = Text"
    by (simp_all add: reconfigured_component_def user_adjusted_component_def
        handleInstrumentChange_def connectedCallback_def)
  from external_reconfiguration_resyncs [of all_changed reconfigured_component Html
      "ascii ''Standard Guitar''"] h r
  show ?thesis by simp
qed

text \<open>
  C5. A mode-button interaction dispatches exactly one event, \<^verbatim>\<open>mode-changed\<close>, whose
  detail is the mode selected, and an instrument selection dispatches exactly one event,
  \<^verbatim>\<open>instrument-changed\<close>, whose detail is the instrument selected. Neither changes
  what chord extraction returns and does, which is the same for any two components with
  the same content and the same parser.
\<close>

theorem user_interaction_notifies_once:
  "snd (handleModeChange m c) =
      [DispatchEvent (CustomEvent (ascii ''mode-changed'') (ModeDetail m) True True)]
   \<and> priv_mode (fst (handleModeChange m c)) = m
   \<and> snd (handleInstrumentChange i c) =
      [DispatchEvent (CustomEvent (ascii ''instrument-changed'') (InstrumentDetail i) True True)]
   \<and> priv_selectedInstrument (fst (handleInstrumentChange i c)) = i
   \<and> extractedChords (fst (handleModeChange m c)) = extractedChords c
   \<and> extractedChords (fst (handleInstrumentChange i c)) = extractedChords c
   \<and> (content c' = content c \<and> parser c' = parser c \<longrightarrow>
        extractedChords c' = extractedChords c)"
proof -
  have a: "extractedChords (fst (handleModeChange m c)) = extractedChords c"
    by (rule extractedChords_cong) (simp_all add: handleModeChange_def)
  have b: "extractedChords (fst (handleInstrumentChange i c)) = extractedChords c"
    by (rule extractedChords_cong) (simp_all add: handleInstrumentChange_def)
  have d: "content c' = content c \<and> parser c' = parser c \<longrightarrow>
        extractedChords c' = extractedChords c"
    using extractedChords_cong by blast
  from a b d show ?thesis
    by (simp add: handleModeChange_def handleInstrumentChange_def mode_changed_def
        instrument_changed_def)
qed

theorem user_interaction_notifies_once_witness:
  "snd (handleModeChange Text example_component) =
      [DispatchEvent (CustomEvent (ascii ''mode-changed'') (ModeDetail Text) True True)]
   \<and> snd (handleInstrumentChange (ascii ''Standard Guitar'') example_component) =
      [DispatchEvent (CustomEvent (ascii ''instrument-changed'')
         (InstrumentDetail (ascii ''Standard Guitar'')) True True)]
   \<and> content (toggleChords example_component) = content example_component
   \<and> parser (toggleChords example_component) = parser example_component
   \<and> fst (extractedChords (toggleChords example_component)) = Inr [ascii ''C'', ascii ''G'']
   \<and> fst (extractedChords (fst (handleModeChange Text example_component)))
       = Inr [ascii ''C'', ascii ''G'']
   \<and> fst (extractedChords (fst (handleInstrumentChange (ascii ''Standard Guitar'')
         example_component))) = Inr [ascii ''C'', ascii ''G'']"
proof -
  have t: "content (toggleChords example_component) = content example_component"
    "parser (toggleChords example_component) = parser example_component"
    by (simp_all add: toggleChords_def)
  from user_interaction_notifies_once [of Text example_component "ascii ''Standard Guitar''"
      "toggleChords example_component"] example_extracted t
  show ?thesis by simp
qed

text \<open>
  C6. In every state of the component the rendering succeeds, and the chart panel stands
  at a place of the layout if and only if that place is the one the chord-position
  setting names, the internal visibility is shown and the extracted chord list is not
  empty; the panel then carries that list and the selected instrument. \<open>toggleChords\<close>
  negates the internal visibility and leaves the extracted chords alone: after a toggle
  the panel stands at the place of the setting if and only if it was hidden before and
  the chord list is not empty, and a second toggle gives the first rendering again.
\<close>

theorem chart_panel_iff_shown_and_chords:
  "\<exists>cs v v'. fst (extractedChords c) = Inr cs
     \<and> fst (render c) = Inr v
     \<and> (\<forall>p. panel_at v p \<longleftrightarrow> p = chordPosition c \<and> priv_showChordsInternal c \<and> cs \<noteq> [])
     \<and> (\<forall>p. panel_at v p \<longrightarrow>
           slot_of v p = Some (ChordChartsSection p cs (priv_selectedInstrument c)))
     \<and> priv_showChordsInternal (toggleChords c) = (\<not> priv_showChordsInternal c)
     \<and> fst (extractedChords (toggleChords c)) = Inr cs
     \<and> fst (render (toggleChords c)) = Inr v'
     \<and> (\<forall>p. panel_at v' p \<longleftrightarrow> p = chordPosition c \<and> \<not> priv_showChordsInternal c \<and> cs \<noteq> [])
     \<and> fst (render (toggleChords (toggleChords c))) = Inr v"
proof -
  obtain cs out where "extractedChords c = (Inr cs, out)"
    using extractedChords_returns by blast
  then have x: "fst (extractedChords c) = Inr cs" by simp
  have "extractedChords (toggleChords c) = extractedChords c"
    by (rule extractedChords_cong) (simp_all add: toggleChords_def)
  with x have x': "fst (extractedChords (toggleChords c)) = Inr cs" by simp
  from panel_at_render [OF x] obtain v where v: "fst (render c) = Inr v"
    "\<forall>p. panel_at v p \<longleftrightarrow> p = chordPosition c \<and> priv_showChordsInternal c \<and> cs \<noteq> []"
    "\<forall>p. panel_at v p \<longrightarrow>
           slot_of v p = Some (ChordChartsSection p cs (priv_selectedInstrument c))"
    by (elim exE conjE) (rule that)
  from panel_at_render [OF x'] obtain v' where v': "fst (render (toggleChords c)) = Inr v'"
    "\<forall>p. panel_at v' p \<longleftrightarrow> p = chordPosition (toggleChords c)
        \<and> priv_showChordsInternal (toggleChords c) \<and> cs \<noteq> []"
    by (elim exE conjE) (rule that)
  have t: "priv_showChordsInternal (toggleChords c) = (\<not> priv_showChordsInternal c)"
    "chordPosition (toggleChords c) = chordPosition c"
    by (simp_all add: toggleChords_def)
  from v'(2) t have w: "\<forall>p. panel_at v' p \<longleftrightarrow> p = chordPosition c
        \<and> \<not> priv_showChordsInternal c \<and> cs \<noteq> []"
    by simp
  have b: "fst (render (toggleChords (toggleChords c))) = Inr v"
    using v(1) by (simp add: toggleChords_twice)
  from x v t(1) x' v'(1) w b show ?thesis
    by (intro exI [of _ cs] exI [of _ v] exI [of _ v'] conjI)
qed

theorem chart_panel_iff_shown_and_chords_witness:
  "\<not> priv_showChordsInternal example_component
   \<and> chordPosition example_component = Top
   \<and> fst (extractedChords example_component) = Inr [ascii ''C'', ascii ''G'']
   \<and> (\<exists>v. fst (render example_component) = Inr v
        \<and> \<not> panel_at v Top \<and> \<not> panel_at v Right \<and> \<not> panel_at v Bottom)
   \<and> (\<exists>v. fst (render (toggleChords example_component)) = Inr v
        \<and> panel_at v Top \<and> \<not> panel_at v Right \<and> \<not> panel_at v Bottom
        \<and> slot_of v Top =
            Some (ChordChartsSection Top [ascii ''C'', ascii ''G''] (ascii ''Standard Ukulele'')))"
proof -
  let ?e = example_component
  let ?t = "toggleChords example_component"
  have s: "\<not> priv_showChordsInternal ?e" "chordPosition ?e = Top"
    "priv_selectedInstrument ?e = ascii ''Standard Ukulele''"
    by (simp_all add: example_component_def ChordProRenderer_def)
  from chart_panel_iff_shown_and_chords [of ?e]
  obtain cs v v' where c: "fst (extractedChords ?e) = Inr cs"
    and v: "fst (render ?e) = Inr v"
    and i: "\<forall>p. panel_at v p \<longleftrightarrow> p = chordPosition ?e \<and> priv_showChordsInternal ?e \<and> cs \<noteq> []"
    and l: "\<forall>p. panel_at v p \<longrightarrow>
           slot_of v p = Some (ChordChartsSection p cs (priv_selectedInstrument ?e))"
    and n: "priv_showChordsInternal ?t = (\<not> priv_showChordsInternal ?e)"
    and c': "fst (extractedChords ?t) = Inr cs"
    and v': "fst (render ?t) = Inr v'"
    and i': "\<forall>p. panel_at v' p \<longleftrightarrow> p = chordPosition ?e \<and> \<not> priv_showChordsInternal ?e \<and> cs \<noteq> []"
    and b: "fst (render (toggleChords ?t)) = Inr v"
    by (elim exE conjE) (rule that)
  from c example_extracted have cs: "cs = [ascii ''C'', ascii ''G'']" by simp
  from i s have 0: "\<not> panel_at v Top" "\<not> panel_at v Right" "\<not> panel_at v Bottom"
    by simp_all
  from i' s cs have 1: "panel_at v' Top" "\<not> panel_at v' Right" "\<not> panel_at v' Bottom"
    by simp_all
  from chart_panel_iff_shown_and_chords [of ?t]
  obtain ds w w' where d: "fst (extractedChords ?t) = Inr ds"
    and w: "fst (render ?t) = Inr w"
    and j: "\<forall>p. panel_at w p \<longleftrightarrow> p = chordPosition ?t \<and> priv_showChordsInternal ?t \<and> ds \<noteq> []"
    and m: "\<forall>p. panel_at w p \<longrightarrow>
           slot_of w p = Some (ChordChartsSection p ds (priv_selectedInstrument ?t))"
    and "priv_showChordsInternal (toggleChords ?t) = (\<not> priv_showChordsInternal ?t)"
    and "fst (extractedChords (toggleChords ?t)) = Inr ds"
    and "fst (render (toggleChords ?t)) = Inr w'"
    and "\<forall>p. panel_at w' p \<longleftrightarrow> p = chordPosition ?t \<and> \<not> priv_showChordsInternal ?t \<and> ds \<noteq> []"
    and "fst (render (toggleChords (toggleChords ?t))) = Inr w"
    by (elim exE conjE) (rule that)
  from w v' have wv: "w = v'" by simp
  from d c' cs have ds: "ds = [ascii ''C'', ascii ''G'']" by simp
  have ti: "priv_selectedInstrument ?t = ascii ''Standard Ukulele''"
    using s(3) by (simp add: toggleChords_def)
  from m 1(1) wv
  have "slot_of w Top = Some (ChordChartsSection Top ds (priv_selectedInstrument ?t))"
    by blast
  with wv ds ti have 2: "slot_of v' Top =
      Some (ChordChartsSection Top [ascii ''C'', ascii ''G''] (ascii ''Standard Ukulele''))"
    by simp
  have a: "\<exists>v. fst (render ?e) = Inr v
        \<and> \<not> panel_at v Top \<and> \<not> panel_at v Right \<and> \<not> panel_at v Bottom"
    using v 0 by (intro exI [of _ v]) simp
  have b: "\<exists>v. fst (render ?t) = Inr v
        \<and> panel_at v Top \<and> \<not> panel_at v Right \<and> \<not> panel_at v Bottom
        \<and> slot_of v Top =
            Some (ChordChartsSection Top [ascii ''C'', ascii ''G''] (ascii ''Standard Ukulele''))"
    using v' 1 2 by (intro exI [of _ v']) simp
  from s(1,2) example_extracted a b show ?thesis by (intro conjI)
qed

text \<open>
  C7. For every input text, \<open>formattedSheet\<close> and \<open>extractedChords\<close> return a value and
  never a thrown error. When the parser throws, extraction returns the empty list; when
  the parser or the formatter of the active mode throws on a text that is not empty,
  \<open>formattedSheet\<close> returns the placeholder string of that mode.
\<close>

theorem no_exception_escapes:
  "(\<exists>s. fst (formattedSheet c) = Inr s)
   \<and> (\<exists>cs. fst (extractedChords c) = Inr cs)
   \<and> (parser c (content c) = Inl e \<longrightarrow> fst (extractedChords c) = Inr [])
   \<and> (content c \<noteq> []
        \<and> (parser c (content c) = Inl e
           \<or> parser c (content c) = Inr sg
             \<and> (if priv_mode c = Html then htmlFormatter c else textFormatter c) sg = Inl e)
      \<longrightarrow> fst (formattedSheet c) =
            Inr (if priv_mode c = Html then ascii ''<div>Invalid ChordPro format</div>''
                 else ascii ''Invalid ChordPro format''))"
proof -
  obtain s where "formattedSheet c = (Inr s, [])"
    using formattedSheet_returns by blast
  then have a: "\<exists>s. fst (formattedSheet c) = Inr s" by simp
  obtain cs out where "extractedChords c = (Inr cs, out)"
    using extractedChords_returns by blast
  then have b: "\<exists>cs. fst (extractedChords c) = Inr cs" by simp
  have d: "parser c (content c) = Inl e \<longrightarrow> fst (extractedChords c) = Inr []"
    by (simp add: extractedChords_throw)
  have f: "content c \<noteq> []
        \<and> (parser c (content c) = Inl e
           \<or> parser c (content c) = Inr sg
             \<and> (if priv_mode c = Html then htmlFormatter c else textFormatter c) sg = Inl e)
      \<longrightarrow> fst (formattedSheet c) =
            Inr (if priv_mode c = Html then ascii ''<div>Invalid ChordPro format</div>''
                 else ascii ''Invalid ChordPro format'')"
    using formattedSheet_throw [of c e] formattedSheet_format_throw [of c sg e] by auto
  from a b d f show ?thesis by blast
qed

theorem no_exception_escapes_witness:
  "fst (formattedSheet malformed_component) = Inr (ascii ''<div>Invalid ChordPro format</div>'')
   \<and> fst (extractedChords malformed_component) = Inr []
   \<and> fst (formattedSheet unformattable_component)
       = Inr (ascii ''<div>Invalid ChordPro format</div>'')
   \<and> fst (extractedChords unformattable_component) = Inr [ascii ''C'', ascii ''G'']"
proof -
  have u1: "content unformattable_component \<noteq> []"
    by (simp add: unformattable_component_def example_text_def)
  have u2: "parser unformattable_component (content unformattable_component) = Inr example_song"
    by (simp add: unformattable_component_def ChordProRenderer_def)
  have u3: "priv_mode unformattable_component = Html"
    by (simp add: unformattable_component_def ChordProRenderer_def)
  have u4: "htmlFormatter unformattable_component example_song
      = Inl (Thrown (ascii ''TypeError''))"
    by (simp add: unformattable_component_def ChordProRenderer_def throwing_formatter_def)
  have x: "fst (extractedChords unformattable_component) = Inr [ascii ''C'', ascii ''G'']"
    using u2 example_chords by (simp add: extractedChords_ok)
  from no_exception_escapes [of malformed_component "Thrown (ascii ''SyntaxError'')"
      example_song]
    no_exception_escapes [of unformattable_component "Thrown (ascii ''TypeError'')"
      example_song]
    malformed_throws malformed_content malformed_mode u1 u2 u3 u4 x
  show ?thesis by simp
qed

text \<open>
  C8 (as amended). For every content value, two successive chord extractions return
  equal chord sequences, and the effects of the two are those of one extraction, twice;
  an extraction is the same on any two components with the same content and parser.
  Whenever the parser returns a song, each of the two extractions dispatches a
  \<^verbatim>\<open>chords-changed\<close> event, the two with the same payload: the event is dispatched
  at every recomputation, not only when the set of chords has changed.
\<close>

theorem extraction_deterministic_refires:
  "(\<exists>cs. fst (extractedChords c) = Inr cs \<and> fst (extract_twice c) = Inr (cs, cs))
   \<and> snd (extract_twice c) = snd (extractedChords c) @ snd (extractedChords c)
   \<and> (content c' = content c \<and> parser c' = parser c \<longrightarrow>
        extractedChords c' = extractedChords c)
   \<and> (parser c (content c) = Inr sg \<longrightarrow>
        (\<exists>cs. fst (extract_twice c) = Inr (cs, cs)
           \<and> dispatched (snd (extract_twice c)) = [chords_changed cs, chords_changed cs]))"
proof -
  obtain cs out where x: "extractedChords c = (Inr cs, out)"
    using extractedChords_returns by blast
  then have t: "extract_twice c = (Inr (cs, cs), out @ out)"
    by (rule extract_twice_eq)
  have a: "\<exists>cs. fst (extractedChords c) = Inr cs \<and> fst (extract_twice c) = Inr (cs, cs)"
    using x t by simp
  have b: "snd (extract_twice c) = snd (extractedChords c) @ snd (extractedChords c)"
    using x t by simp
  have d: "parser c (content c) = Inr sg \<longrightarrow>
        (\<exists>cs. fst (extract_twice c) = Inr (cs, cs)
           \<and> dispatched (snd (extract_twice c)) = [chords_changed cs, chords_changed cs])"
  proof
    assume "parser c (content c) = Inr sg"
    then have "extract_twice c =
      (Inr (sort (collect_chords sg), sort (collect_chords sg)),
       [DispatchEvent (chords_changed (sort (collect_chords sg)))]
         @ [DispatchEvent (chords_changed (sort (collect_chords sg)))])"
      by (intro extract_twice_eq extractedChords_ok)
    then show "\<exists>cs. fst (extract_twice c) = Inr (cs, cs)
           \<and> dispatched (snd (extract_twice c)) = [chords_changed cs, chords_changed cs]"
      by (simp add: dispatched_def)
  qed
  have g: "content c' = content c \<and> parser c' = parser c \<longrightarrow>
        extractedChords c' = extractedChords c"
    using extractedChords_cong by blast
  from a b g d show ?thesis by (intro conjI)
qed

theorem extraction_deterministic_refires_witness:
  "parser example_component (content example_component) = Inr example_song
   \<and> content (toggleChords example_component) = content example_component
   \<and> parser (toggleChords example_component) = parser example_component
   \<and> extractedChords (toggleChords example_component) = extractedChords example_component
   \<and> fst (extract_twice example_component)
       = Inr ([ascii ''C'', ascii ''G''], [ascii ''C'', ascii ''G''])
   \<and> dispatched (snd (extract_twice example_component))
       = [chords_changed [ascii ''C'', ascii ''G''], chords_changed [ascii ''C'', ascii ''G'']]"
proof -
  have t: "content (toggleChords example_component) = content example_component"
    "parser (toggleChords example_component) = parser example_component"
    by (simp_all add: toggleChords_def)
  from extraction_deterministic_refires [of example_component "toggleChords example_component"
      example_song] example_parses example_extracted t
  show ?thesis by auto
qed

text \<open>
  On a content that the parser rejects, no recomputation dispatches an event.
\<close>

theorem no_refire_on_parse_failure_counterexample:
  "parser malformed_component (content malformed_component)
     = Inl (Thrown (ascii ''SyntaxError''))
   \<and> fst (extract_twice malformed_component) = Inr ([], [])
   \<and> dispatched (snd (extract_twice malformed_component)) = []"
  using malformed_throws extract_twice_eq [OF extractedChords_throw [OF malformed_throws]]
  by (simp add: dispatched_def)

text \<open>
  C9. Let the content be the empty text, and let the parser, given the empty text, throw
  or return a song without chord annotations. Then chord extraction yields the empty
  sequence, \<open>formattedSheet\<close> is the empty string without effects, whatever the parser and
  the formatters of the component are (they are not invoked), and the rendered body is
  the placeholder for no content.
\<close>

theorem empty_content_placeholder:
  assumes "content c = []"
    and "case parser c [] of Inl e \<Rightarrow> True | Inr sg \<Rightarrow> trimmed_chord_strings sg = {}"
  shows "fst (extractedChords c) = Inr []
    \<and> formattedSheet c = (Inr [], [])
    \<and> formattedSheet (c\<lparr> parser := p, htmlFormatter := hf, textFormatter := tf \<rparr>) = (Inr [], [])
    \<and> (\<exists>v. fst (render c) = Inr v \<and> viewer v = NoContent)"
proof -
  have x: "fst (extractedChords c) = Inr []"
  proof (cases "parser c (content c)")
    case (Inl e)
    then show ?thesis by (simp add: extractedChords_throw)
  next
    case (Inr sg)
    with assms have "trimmed_chord_strings sg = {}" by simp
    then have "collect_chords sg = []"
      using set_collect_chords [of sg] by simp
    with Inr show ?thesis by (simp add: extractedChords_ok)
  qed
  have f: "formattedSheet c = (Inr [], [])"
    using assms(1) by (rule formattedSheet_empty)
  have g: "formattedSheet (c\<lparr> parser := p, htmlFormatter := hf, textFormatter := tf \<rparr>)
      = (Inr [], [])"
    using assms(1) by (simp add: formattedSheet_empty)
  from f have f': "fst (formattedSheet c) = Inr []" by simp
  from fst_render [OF x f'] have r: "\<exists>v. fst (render c) = Inr v \<and> viewer v = NoContent"
    by auto
  from x f g r show ?thesis by (intro conjI)
qed

theorem empty_content_placeholder_witness:
  "content empty_component = []
   \<and> parser empty_component [] = Inr empty_song
   \<and> trimmed_chord_strings empty_song = {}
   \<and> fst (extractedChords empty_component) = Inr []
   \<and> formattedSheet empty_component = (Inr [], [])
   \<and> formattedSheet (empty_component\<lparr> parser := rejecting_parser,
        htmlFormatter := throwing_formatter, textFormatter := throwing_formatter \<rparr>)
       = (Inr [], [])
   \<and> (\<exists>v. fst (render empty_component) = Inr v \<and> viewer v = NoContent)"
proof -
  have a: "content empty_component = []"
    by (simp add: empty_component_def ChordProRenderer_def)
  have p: "parser empty_component [] = Inr empty_song"
    by (simp add: empty_component_def ChordProRenderer_def)
  have t: "trimmed_chord_strings empty_song = {}"
    by (simp add: trimmed_chord_strings_def chord_annotations_def empty_song_def)
  have b: "case parser empty_component [] of Inl e \<Rightarrow> True
      | Inr sg \<Rightarrow> trimmed_chord_strings sg = {}"
    using p t by simp
  from empty_content_placeholder [OF a b, where p = rejecting_parser
      and hf = throwing_formatter and tf = throwing_formatter] a p t
  show ?thesis by simp
qed

text \<open>
  C10. A \<^verbatim>\<open>chords-changed\<close> event is dispatched by an extraction if and only if the
  parser returns a song. When the parser throws, the extraction returns the empty
  sequence and dispatches nothing. When the parser returns a song, the extraction
  dispatches exactly one event, whose payload is the sequence returned, be it empty or
  not. An item whose chord annotation is not a string leaves the set of chords as it is.
\<close>

theorem chords_changed_iff_parsed:
  "(parser c (content c) = Inl e \<longrightarrow>
      fst (extractedChords c) = Inr [] \<and> dispatched (snd (extractedChords c)) = [])
   \<and> (parser c (content c) = Inr sg \<longrightarrow>
      (\<exists>cs. fst (extractedChords c) = Inr cs
         \<and> dispatched (snd (extractedChords c)) = [chords_changed cs]))
   \<and> (dispatched (snd (extractedChords c)) \<noteq> [] \<longleftrightarrow> (\<exists>sg'. parser c (content c) = Inr sg'))
   \<and> (typeof (chords it) \<noteq> ascii ''string'' \<longrightarrow> item_callback acc it = acc)"
proof -
  have a: "parser c (content c) = Inl e \<longrightarrow>
      fst (extractedChords c) = Inr [] \<and> dispatched (snd (extractedChords c)) = []"
    by (simp add: extractedChords_throw dispatched_def)
  have b: "parser c (content c) = Inr sg \<longrightarrow>
      (\<exists>cs. fst (extractedChords c) = Inr cs
         \<and> dispatched (snd (extractedChords c)) = [chords_changed cs])"
    by (simp add: extractedChords_ok dispatched_def)
  have i: "dispatched (snd (extractedChords c)) \<noteq> [] \<longleftrightarrow> (\<exists>sg'. parser c (content c) = Inr sg')"
    by (cases "parser c (content c)")
      (simp_all add: extractedChords_throw extractedChords_ok dispatched_def)
  have s: "typeof (chords it) \<noteq> ascii ''string'' \<longrightarrow> item_callback acc it = acc"
    by (simp add: item_callback_def)
  from a b i s show ?thesis by (intro conjI)
qed

theorem chords_changed_iff_parsed_witness:
  "parser malformed_component (content malformed_component)
     = Inl (Thrown (ascii ''SyntaxError''))
   \<and> fst (extractedChords malformed_component) = Inr []
   \<and> dispatched (snd (extractedChords malformed_component)) = []
   \<and> parser chordless_component (content chordless_component) = Inr chordless_song
   \<and> fst (extractedChords chordless_component) = Inr []
   \<and> dispatched (snd (extractedChords chordless_component)) = [chords_changed []]
   \<and> typeof (chords (Item JSObject)) \<noteq> ascii ''string''
   \<and> item_callback [ascii ''G''] (Item JSObject) = [ascii ''G'']"
proof -
  have p: "parser chordless_component (content chordless_component) = Inr chordless_song"
    by (simp add: chordless_component_def ChordProRenderer_def)
  have e: "sort (collect_chords chordless_song) = []"
    by (simp add: chordless_song_def collect_chords_def line_callback_def item_callback_def
        ascii_def)
  have t: "typeof (chords (Item JSObject)) \<noteq> ascii ''string''"
    by (simp add: ascii_def)
  from chords_changed_iff_parsed [of malformed_component "Thrown (ascii ''SyntaxError'')"
      chordless_song "Item JSObject" "[ascii ''G'']"]
    chords_changed_iff_parsed [of chordless_component "Thrown (ascii ''SyntaxError'')"
      chordless_song "Item JSObject" "[ascii ''G'']"]
    malformed_throws p e t
  show ?thesis by (simp add: extractedChords_ok)
qed

end
